theory Spec2Isabelle
  imports Main "HOL-Library.Sublist" "HOL-Library.Code_Target_Nat"
begin

section \<open>The service: fantasy-football-app/backend/app/main.py\<close>

subsection \<open>Values of the program\<close>

text \<open>
  The handler returns a Python dict with string keys and string values. A dict keeps
  insertion order, so it is an association list. An \<^verbatim>\<open>async def\<close> either returns a
  value or raises: its outcome is a sum, with the exception on the left.
\<close>

type_synonym py_dict = "(string \<times> string) list"

datatype py_error =
  FileExistsError
  | FileNotFoundError
  | NotADirectoryError
  | IsADirectoryError
  | OSError
  | ValueError
  | UnicodeEncodeError
  | RecursionError
  | CalledProcessError

text \<open>
  An endpoint runs in the process: it may read and change the process state \<open>'w\<close>
  (module globals, the application object, anything reachable), so it takes the state
  and returns the state it leaves behind.
\<close>

type_synonym 'w endpoint = "'w \<Rightarrow> (py_error + py_dict) \<times> 'w"

subsection \<open>The application object\<close>

text \<open>
  The keyword arguments of \<^verbatim>\<open>app.add_middleware(CORSMiddleware, ...)\<close>, lines 6 to 12.
\<close>

record cors_config =
  allow_origins :: "string list"
  allow_credentials :: bool
  allow_methods :: "string list"
  allow_headers :: "string list"

text \<open>
  The application object as far as main.py sets it: its title and the middleware it was
  given. This is the state of the running process.
\<close>

record fastapi =
  title :: string
  user_middleware :: "cors_config list"

text \<open>
  A route as the decorator \<^verbatim>\<open>@app.get(path)\<close> registers it: the method \<^verbatim>\<open>GET\<close>,
  the path and the function decorated. The constructor \<^verbatim>\<open>FastAPI\<close>, \<^verbatim>\<open>add_middleware\<close>
  and the decorator are the framework's; all that is modelled of them is that they record
  what main.py hands them.
\<close>

record 'w route =
  route_methods :: "string list"
  route_path :: string
  endpoint :: "'w endpoint"

definition FastAPI :: "string \<Rightarrow> fastapi" where
  "FastAPI t = \<lparr>title = t, user_middleware = []\<rparr>"

definition add_middleware :: "cors_config \<Rightarrow> fastapi \<Rightarrow> fastapi" where
  "add_middleware c a = a\<lparr>user_middleware := c # user_middleware a\<rparr>"

definition app_get :: "string \<Rightarrow> 'w endpoint \<Rightarrow> 'w route" where
  "app_get p f = \<lparr>route_methods = [''GET''], route_path = p, endpoint = f\<rparr>"

text \<open>main.py, lines 6 to 12: the configuration handed to the middleware.\<close>

definition CORSMiddleware :: cors_config where
  "CORSMiddleware =
     \<lparr>allow_origins = [''http://localhost:5173''],
      allow_credentials = True,
      allow_methods = [''*''],
      allow_headers = [''*'']\<rparr>"

text \<open>main.py, lines 4 to 12: the application object after the module is loaded.\<close>

definition app :: fastapi where
  "app = add_middleware CORSMiddleware (FastAPI ''Fantasy Football League API'')"

text \<open>
  main.py, lines 15 and 16: \<^verbatim>\<open>async def health_check(): return {"status": "healthy"}\<close>.
  The function takes no argument, reads nothing and writes nothing: the state goes
  through untouched.
\<close>

definition health_check :: "'w endpoint" where
  "health_check w = (Inr [(''status'', ''healthy'')], w)"

text \<open>main.py, line 14: the one route of the service.\<close>

definition app_routes :: "'w route list" where
  "app_routes = [app_get ''/api/v1/health-check'' health_check]"

subsection \<open>The hosting layer\<close>

text \<open>
  Requests reach main.py through the web framework it imports, which is not part of
  the repository. The definitions of this subsection describe that layer.
\<close>

record request =
  req_method :: string
  req_path :: string
  req_headers :: "(string \<times> string) list"
  req_body :: string

datatype producer = Application | Hosting_Layer

record response =
  status :: nat
  resp_headers :: "(string \<times> string) list"
  resp_body :: "py_dict option"
  produced_by :: producer

text \<open>
  Modelled from the spec: the responses of the hosting layer (the imported web
  framework). A value an endpoint returns becomes a success response
  (\<^verbatim>\<open>200 OK, JSON body, content-type application/json\<close>); every other response
  is an error of the hosting layer and carries no body of the application.
\<close>

definition json_response :: "py_dict \<Rightarrow> response" where
  "json_response d =
     \<lparr>status = 200, resp_headers = [(''Content-Type'', ''application/json'')],
      resp_body = Some d, produced_by = Application\<rparr>"

definition host_error :: "nat \<Rightarrow> response" where
  "host_error code =
     \<lparr>status = code, resp_headers = [], resp_body = None, produced_by = Hosting_Layer\<rparr>"

text \<open>
  Modelled from the spec: the router of the hosting layer. A request whose path and
  method match a route is answered by the route's endpoint; a request whose path
  matches a route and whose method does not \<^verbatim>\<open>receives a "method not allowed" response
  from the hosting layer\<close> (405). The spec names no response for a path that no route
  has, nor for an endpoint that raises; the HTTP codes 404 and 500 stand for them.
\<close>

definition dispatch :: "'w route list \<Rightarrow> request \<Rightarrow> 'w \<Rightarrow> response \<times> 'w" where
  "dispatch rs req w =
     (case find (\<lambda>r. route_path r = req_path req \<and> req_method req \<in> set (route_methods r)) rs of
        Some r \<Rightarrow>
          (case endpoint r w of
             (Inr d, w') \<Rightarrow> (json_response d, w')
           | (Inl e, w') \<Rightarrow> (host_error 500, w'))
      | None \<Rightarrow>
          (if find (\<lambda>r. route_path r = req_path req) rs = None
           then (host_error 404, w)
           else (host_error 405, w)))"

text \<open>Python's \<^verbatim>\<open>sep.join(xs)\<close>.\<close>

fun join :: "string \<Rightarrow> string list \<Rightarrow> string" where
  "join sep [] = []"
| "join sep [x] = x"
| "join sep (x # y # ys) = x @ sep @ join sep (y # ys)"

text \<open>
  Modelled from the spec: the cross-origin middleware of the hosting layer, which
  main.py configures and does not define. \<^verbatim>\<open>For preflight and actual cross-origin
  requests, the service must echo/allow the configured origin, permit credentials, and
  allow any method and any header\<close>; the headers are
  \<^verbatim>\<open>Access-Control-Allow-Origin, Access-Control-Allow-Credentials: true,
  Access-Control-Allow-Methods: *, Access-Control-Allow-Headers: *\<close>, and a request
  \<^verbatim>\<open>from any other origin does not receive an Access-Control-Allow-Origin header
  matching that other origin\<close>. Header names are spelled as the spec spells them.
\<close>

definition cors_headers :: "cors_config \<Rightarrow> string \<Rightarrow> (string \<times> string) list" where
  "cors_headers c origin =
     (if origin \<in> set (allow_origins c)
      then [(''Access-Control-Allow-Origin'', origin)] @
           (if allow_credentials c then [(''Access-Control-Allow-Credentials'', ''true'')] else []) @
           [(''Access-Control-Allow-Methods'', join '', '' (allow_methods c)),
            (''Access-Control-Allow-Headers'', join '', '' (allow_headers c))]
      else [])"

text \<open>
  Modelled from the spec: a preflight request is an \<^verbatim>\<open>OPTIONS\<close> request
  \<^verbatim>\<open>with header Origin and Access-Control-Request-Method\<close>.
\<close>

definition is_preflight :: "request \<Rightarrow> bool" where
  "is_preflight req =
     (req_method req = ''OPTIONS'' \<and>
      map_of (req_headers req) ''Origin'' \<noteq> None \<and>
      map_of (req_headers req) ''Access-Control-Request-Method'' \<noteq> None)"

text \<open>
  Modelled from the spec: the middleware around an inner handler. A request with no
  \<^verbatim>\<open>Origin\<close> header is not cross-origin and passes through. A preflight is answered by
  the middleware itself, the inner handler never sees it (status \<^verbatim>\<open>200\<close> for the
  configured origin; for another origin the spec gives no status, 400 stands for the
  refusal). Any other cross-origin request goes to the inner handler and the policy's
  headers are added to its response.
\<close>

definition cors_middleware ::
  "cors_config \<Rightarrow> (request \<Rightarrow> 'w \<Rightarrow> response \<times> 'w) \<Rightarrow> request \<Rightarrow> 'w \<Rightarrow> response \<times> 'w" where
  "cors_middleware c inner req w =
     (case map_of (req_headers req) ''Origin'' of
        None \<Rightarrow> inner req w
      | Some origin \<Rightarrow>
          if is_preflight req
          then ((host_error (if origin \<in> set (allow_origins c) then 200 else 400))
                  \<lparr>resp_headers := cors_headers c origin\<rparr>, w)
          else (case inner req w of
                  (resp, w') \<Rightarrow>
                    (resp\<lparr>resp_headers := resp_headers resp @ cors_headers c origin\<rparr>, w')))"

text \<open>
  Modelled from the spec: serving one request. The middleware the application object
  holds is wrapped around the router, the first of the list outermost; the endpoints run
  on the application object, the state of the process.
\<close>

definition serve :: "fastapi route list \<Rightarrow> request \<Rightarrow> fastapi \<Rightarrow> response \<times> fastapi" where
  "serve rs req a = foldr cors_middleware (user_middleware a) (dispatch rs) req a"

text \<open>
  Modelled from the spec: the running service. \<^verbatim>\<open>Each request is handled
  independently\<close>; a run is a list of requests, each served in the state the one
  before it left.
\<close>

fun run_service ::
  "fastapi route list \<Rightarrow> request list \<Rightarrow> fastapi \<Rightarrow> response list \<times> fastapi" where
  "run_service rs [] a = ([], a)"
| "run_service rs (req # reqs) a =
     (case serve rs req a of
        (resp, a') \<Rightarrow>
          (case run_service rs reqs a' of (resps, a'') \<Rightarrow> (resp # resps, a'')))"

text \<open>The names of the response headers that carry the cross-origin policy.\<close>

definition is_cors_header :: "string \<times> string \<Rightarrow> bool" where
  "is_cors_header h =
     (fst h \<in> set [''Access-Control-Allow-Origin'', ''Access-Control-Allow-Credentials'',
                    ''Access-Control-Allow-Methods'', ''Access-Control-Allow-Headers''])"

section \<open>The scaffolding script: setup-script.py\<close>

subsection \<open>Strings and their bytes\<close>

text \<open>
  A Python \<^verbatim>\<open>str\<close> is a sequence of code points, which may be lone surrogates; a file
  and a file name hold bytes, and a \<open>char\<close> is a byte. The literals of the script are
  ASCII: \<open>str\<close> reads one from its bytes.
\<close>

type_synonym py_str = "nat list"

definition str :: "string \<Rightarrow> py_str" where
  "str s = map of_char s"

definition is_surrogate :: "nat \<Rightarrow> bool" where
  "is_surrogate c = (0xD800 \<le> c \<and> c \<le> 0xDFFF)"

text \<open>The bytes of one code point in UTF-8.\<close>

definition utf8_char :: "nat \<Rightarrow> string" where
  "utf8_char c =
     (if c < 0x80 then [char_of c]
      else if c < 0x800 then [char_of (0xC0 + c div 0x40), char_of (0x80 + c mod 0x40)]
      else if c < 0x10000
      then [char_of (0xE0 + c div 0x1000), char_of (0x80 + c div 0x40 mod 0x40),
            char_of (0x80 + c mod 0x40)]
      else [char_of (0xF0 + c div 0x40000), char_of (0x80 + c div 0x1000 mod 0x40),
            char_of (0x80 + c div 0x40 mod 0x40), char_of (0x80 + c mod 0x40)])"

text \<open>
  \<^verbatim>\<open>f.write(content)\<close> on a file opened with \<^verbatim>\<open>encoding='utf-8'\<close>: a string with a
  surrogate cannot be encoded (\<^verbatim>\<open>UnicodeEncodeError\<close>); any other string becomes
  \<open>utf8_bytes\<close>.
\<close>

definition utf8_encodable :: "py_str \<Rightarrow> bool" where
  "utf8_encodable t = (\<not> list_ex is_surrogate t)"

definition utf8_bytes :: "py_str \<Rightarrow> string" where
  "utf8_bytes t = concat (map utf8_char t)"

text \<open>
  A file name goes to the operating system in the file system encoding, UTF-8 with
  \<^verbatim>\<open>surrogateescape\<close>: the surrogates U+DC80 to U+DCFF stand for the bytes 0x80 to
  0xFF, and any other surrogate cannot be encoded.
\<close>

definition is_escape :: "nat \<Rightarrow> bool" where
  "is_escape c = (0xDC80 \<le> c \<and> c \<le> 0xDCFF)"

definition fs_encodable :: "py_str \<Rightarrow> bool" where
  "fs_encodable t = (\<not> list_ex (\<lambda>c. is_surrogate c \<and> \<not> is_escape c) t)"

definition fs_bytes :: "py_str \<Rightarrow> string" where
  "fs_bytes t = concat (map (\<lambda>c. if is_escape c then [char_of (c - 0xDC00)] else utf8_char c) t)"

subsection \<open>Paths\<close>

text \<open>
  A \<^verbatim>\<open>pathlib.Path\<close> on a POSIX system: its anchor (no slash for a relative path,
  one slash, or two when the text starts with exactly two) and its parts. Parsing drops
  empty parts and the part \<^verbatim>\<open>.\<close>, and keeps \<^verbatim>\<open>..\<close>.
\<close>

record py_path =
  anchor :: nat
  parts :: "py_str list"

fun split_on :: "'a \<Rightarrow> 'a list \<Rightarrow> 'a list list" where
  "split_on sep [] = [[]]"
| "split_on sep (c # cs) =
     (if c = sep then [] # split_on sep cs
      else (case split_on sep cs of
              [] \<Rightarrow> [[c]]
            | x # xs \<Rightarrow> (c # x) # xs))"

definition Path :: "py_str \<Rightarrow> py_path" where
  "Path t =
     \<lparr>anchor = (let n = length (takeWhile (\<lambda>c. c = 47) t) in
                 if n = 0 then 0 else if n = 2 then 2 else 1),
      parts = filter (\<lambda>x. x \<noteq> [] \<and> x \<noteq> [46]) (split_on 47 t)\<rparr>"

text \<open>
  The operator \<^verbatim>\<open>/\<close> of a path and a string (an absolute right operand replaces the
  left one), and the attribute \<^verbatim>\<open>parent\<close>, which drops the last part and knows nothing
  of the file system.
\<close>

definition truediv :: "py_path \<Rightarrow> py_str \<Rightarrow> py_path" where
  "truediv p t =
     (let q = Path t in if anchor q \<noteq> 0 then q else p\<lparr>parts := parts p @ parts q\<rparr>)"

definition parent :: "py_path \<Rightarrow> py_path" where
  "parent p = p\<lparr>parts := butlast (parts p)\<rparr>"

subsection \<open>The file system\<close>

text \<open>
  The state the script works on. The tree of the file system is keyed by locations,
  the names from the root down (the root is \<open>[]\<close> and always a directory); there are
  directories and regular files, no symbolic links and no permissions. With it go the
  working directory, what was printed, and three limits of the platform: the longest
  name in bytes, the length from which the text of a path is refused, and how many calls
  of \<^verbatim>\<open>Path.mkdir\<close> the interpreter lets nest before it raises \<^verbatim>\<open>RecursionError\<close>.
\<close>

type_synonym path = "string list"

datatype node = Dir | File string

record os_state =
  tree :: "path \<Rightarrow> node option"
  cwd :: path
  stdout :: "py_str list"
  name_max :: nat
  path_max :: nat
  max_depth :: nat

definition lookup :: "os_state \<Rightarrow> path \<Rightarrow> node option" where
  "lookup s a = (if a = [] then Some Dir else tree s a)"

text \<open>An exception leaves the state it was raised in.\<close>

type_synonym outcome = "py_error \<times> os_state + os_state"

text \<open>
  What a system call does with a path before it looks at the file system: the text
  of the path is encoded (\<^verbatim>\<open>UnicodeEncodeError\<close>), must hold no NUL byte
  (\<^verbatim>\<open>ValueError\<close>) and must be shorter than the limit (\<^verbatim>\<open>OSError\<close>, file name too
  long). The text of a path with no parts is \<^verbatim>\<open>.\<close> or its anchor.
\<close>

definition text_length :: "nat \<Rightarrow> string list \<Rightarrow> nat" where
  "text_length a ns =
     (if ns = [] then (if a = 0 then 1 else a)
      else a + sum_list (map length ns) + (length ns - 1))"

definition syscall_path :: "os_state \<Rightarrow> py_path \<Rightarrow> py_error + string list" where
  "syscall_path s p =
     (if \<not> list_all fs_encodable (parts p) then Inl UnicodeEncodeError
      else (let ns = map fs_bytes (parts p) in
            if list_ex (\<lambda>n. CHR 0x00 \<in> set n) ns then Inl ValueError
            else if path_max s \<le> text_length (anchor p) ns then Inl OSError
            else Inr ns))"

definition start :: "os_state \<Rightarrow> py_path \<Rightarrow> path" where
  "start s p = (if anchor p = 0 then cwd s else [])"

text \<open>
  The walk of the operating system from the directory \<open>d\<close> through names that must
  all be directories: \<^verbatim>\<open>..\<close> steps to the parent (the root is its own parent), a name
  longer than the limit is refused, a missing name is \<^verbatim>\<open>FileNotFoundError\<close> and a
  regular file on the way is \<^verbatim>\<open>NotADirectoryError\<close>.
\<close>

fun walk :: "os_state \<Rightarrow> path \<Rightarrow> string list \<Rightarrow> py_error + path" where
  "walk s d [] = Inr d"
| "walk s d (c # cs) =
     (if c = ''..'' then walk s (butlast d) cs
      else if name_max s < length c then Inl OSError
      else (case lookup s (d @ [c]) of
              None \<Rightarrow> Inl FileNotFoundError
            | Some (File b) \<Rightarrow> Inl NotADirectoryError
            | Some Dir \<Rightarrow> walk s (d @ [c]) cs))"

text \<open>\<^verbatim>\<open>Path.is_dir()\<close>: whether the path leads to a directory; no error leaves it.\<close>

definition is_dir :: "os_state \<Rightarrow> py_path \<Rightarrow> bool" where
  "is_dir s p =
     (case syscall_path s p of
        Inl e \<Rightarrow> False
      | Inr ns \<Rightarrow>
          (case walk s (start s p) ns of
             Inl e \<Rightarrow> False
           | Inr a \<Rightarrow> lookup s a = Some Dir))"

text \<open>
  \<^verbatim>\<open>os.mkdir(path)\<close>: the walk to the parent must succeed, and the last name must not
  exist (\<^verbatim>\<open>FileExistsError\<close>; \<^verbatim>\<open>.\<close>, the root and \<^verbatim>\<open>..\<close> always exist).
\<close>

definition os_mkdir :: "py_path \<Rightarrow> os_state \<Rightarrow> outcome" where
  "os_mkdir p s =
     (case syscall_path s p of
        Inl e \<Rightarrow> Inl (e, s)
      | Inr ns \<Rightarrow>
          if ns = [] then Inl (FileExistsError, s)
          else (case walk s (start s p) (butlast ns) of
                  Inl e \<Rightarrow> Inl (e, s)
                | Inr d \<Rightarrow>
                    if last ns = ''..'' then Inl (FileExistsError, s)
                    else if name_max s < length (last ns) then Inl (OSError, s)
                    else if lookup s (d @ [last ns]) \<noteq> None then Inl (FileExistsError, s)
                    else Inr (s\<lparr>tree := (tree s)(d @ [last ns] \<mapsto> Dir)\<rparr>)))"

text \<open>
  The exceptions that \<^verbatim>\<open>except OSError\<close> catches: \<^verbatim>\<open>OSError\<close> and its subclasses.
\<close>

definition is_OSError :: "py_error \<Rightarrow> bool" where
  "is_OSError e =
     (e \<in> set [OSError, FileExistsError, FileNotFoundError, NotADirectoryError, IsADirectoryError])"

text \<open>
  \<^verbatim>\<open>Path.mkdir(parents, exist_ok)\<close>, as pathlib defines it: try \<^verbatim>\<open>os.mkdir\<close>; on
  \<^verbatim>\<open>FileNotFoundError\<close> make the parents first (when asked to) and try once more; any
  other \<^verbatim>\<open>OSError\<close> is swallowed when \<^verbatim>\<open>exist_ok\<close> is set and the path is a directory;
  anything else goes through. Each call takes a frame of the interpreter: with none of
  the \<open>frames\<close> left the call raises \<^verbatim>\<open>RecursionError\<close>.
\<close>

function mkdir_frames :: "nat \<Rightarrow> bool \<Rightarrow> bool \<Rightarrow> py_path \<Rightarrow> os_state \<Rightarrow> outcome" where
  "mkdir_frames frames parents exist_ok p s =
     (if frames = 0 then Inl (RecursionError, s)
      else (case os_mkdir p s of
              Inr s' \<Rightarrow> Inr s'
            | Inl (e, s0) \<Rightarrow>
                if e = FileNotFoundError
                then (if \<not> parents \<or> parent p = p then Inl (e, s0)
                      else (case mkdir_frames (frames - 1) True True (parent p) s of
                              Inl x \<Rightarrow> Inl x
                            | Inr s' \<Rightarrow> mkdir_frames (frames - 1) False exist_ok p s'))
                else if is_OSError e
                then (if \<not> exist_ok \<or> \<not> is_dir s p then Inl (e, s0) else Inr s)
                else Inl (e, s0)))"
  by pat_completeness auto
termination
  by (relation "measure (\<lambda>(frames, parents, exist_ok, p, s). frames)") simp_all

definition mkdir :: "bool \<Rightarrow> bool \<Rightarrow> py_path \<Rightarrow> os_state \<Rightarrow> outcome" where
  "mkdir parents exist_ok p s = mkdir_frames (max_depth s) parents exist_ok p s"

text \<open>
  \<^verbatim>\<open>with open(path, 'w', encoding='utf-8') as f: f.write(content)\<close>: a directory
  cannot be opened for writing; opening creates the file or empties it, and then the
  content is encoded and written, so that after an encoding error the file is there and
  empty.
\<close>

definition open_w_write :: "py_path \<Rightarrow> py_str \<Rightarrow> os_state \<Rightarrow> outcome" where
  "open_w_write p content s =
     (case syscall_path s p of
        Inl e \<Rightarrow> Inl (e, s)
      | Inr ns \<Rightarrow>
          if ns = [] then Inl (IsADirectoryError, s)
          else (case walk s (start s p) (butlast ns) of
                  Inl e \<Rightarrow> Inl (e, s)
                | Inr d \<Rightarrow>
                    if last ns = ''..'' then Inl (IsADirectoryError, s)
                    else if name_max s < length (last ns) then Inl (OSError, s)
                    else if lookup s (d @ [last ns]) = Some Dir then Inl (IsADirectoryError, s)
                    else if \<not> utf8_encodable content
                    then Inl (UnicodeEncodeError, s\<lparr>tree := (tree s)(d @ [last ns] \<mapsto> File [])\<rparr>)
                    else Inr (s\<lparr>tree := (tree s)(d @ [last ns] \<mapsto> File (utf8_bytes content))\<rparr>)))"

text \<open>setup-script.py, lines 6 to 10.\<close>

definition create_file :: "py_path \<Rightarrow> py_str \<Rightarrow> os_state \<Rightarrow> outcome" where
  "create_file p content s =
     (case mkdir True True (parent p) s of
        Inl x \<Rightarrow> Inl x
      | Inr s' \<Rightarrow> open_w_write p content s')"

text \<open>
  \<^verbatim>\<open>print\<close>, \<^verbatim>\<open>os.chdir\<close> and \<^verbatim>\<open>subprocess.run(args, check=True)\<close>. The program
  that \<^verbatim>\<open>subprocess.run\<close> starts is outside the repository: it is the parameter
  \<open>exec\<close>, which may fail to start, or change the state and return an exit code.
\<close>

definition print :: "py_str \<Rightarrow> os_state \<Rightarrow> outcome" where
  "print line s = Inr (s\<lparr>stdout := stdout s @ [line]\<rparr>)"

definition chdir :: "py_path \<Rightarrow> os_state \<Rightarrow> outcome" where
  "chdir p s =
     (case syscall_path s p of
        Inl e \<Rightarrow> Inl (e, s)
      | Inr ns \<Rightarrow>
          (case walk s (start s p) ns of
             Inl e \<Rightarrow> Inl (e, s)
           | Inr a \<Rightarrow>
               (case lookup s a of
                  None \<Rightarrow> Inl (FileNotFoundError, s)
                | Some (File b) \<Rightarrow> Inl (NotADirectoryError, s)
                | Some Dir \<Rightarrow> Inr (s\<lparr>cwd := a\<rparr>))))"

definition subprocess_run ::
  "(py_str list \<Rightarrow> os_state \<Rightarrow> py_error \<times> os_state + int \<times> os_state) \<Rightarrow> py_str list \<Rightarrow>
   os_state \<Rightarrow> outcome" where
  "subprocess_run exec args s =
     (case exec args s of
        Inl x \<Rightarrow> Inl x
      | Inr (returncode, s') \<Rightarrow>
          if returncode \<noteq> 0 then Inl (CalledProcessError, s') else Inr s')"

text \<open>Statements one after the other: the first exception ends the run.\<close>

fun steps :: "(os_state \<Rightarrow> outcome) list \<Rightarrow> os_state \<Rightarrow> outcome" where
  "steps [] s = Inr s"
| "steps (f # fs) s = (case f s of Inl x \<Rightarrow> Inl x | Inr s' \<Rightarrow> steps fs s')"

subsection \<open>The texts the script writes\<close>

text \<open>setup-script.py, lines 23 to 39: the string literal.\<close>

definition main_py_template :: string where
  \<open>main_py_template =
     ''from fastapi import FastAPI\<newline>'' @
     ''from fastapi.middleware.cors import CORSMiddleware\<newline>'' @
     ''\<newline>'' @
     ''app = FastAPI(title="Fantasy Football League API")\<newline>'' @
     ''\<newline>'' @
     ''app.add_middleware(\<newline>'' @
     ''    CORSMiddleware,\<newline>'' @
     ''    allow_origins=["http://localhost:5173"],\<newline>'' @
     ''    allow_credentials=True,\<newline>'' @
     ''    allow_methods=["*"],\<newline>'' @
     ''    allow_headers=["*"],\<newline>'' @
     '')\<newline>'' @
     ''\<newline>'' @
     ''@app.get("/api/v1/health-check")\<newline>'' @
     ''async def health_check():\<newline>'' @
     ''    return {"status": "healthy"}\<newline>''\<close>

text \<open>setup-script.py, lines 57 to 66: the string literal.\<close>

definition requirements :: string where
  \<open>requirements =
     ''fastapi==0.104.1\<newline>'' @
     ''uvicorn==0.24.0\<newline>'' @
     ''sqlalchemy==2.0.23\<newline>'' @
     ''alembic==1.12.1\<newline>'' @
     ''psycopg2-binary==2.9.9\<newline>'' @
     ''python-jose[cryptography]==3.3.0\<newline>'' @
     ''passlib[bcrypt]==1.7.4\<newline>'' @
     ''python-multipart==0.0.6\<newline>'' @
     ''requests==2.31.0\<newline>''\<close>

text \<open>setup-script.py, lines 97 to 105: the string literal.\<close>

definition backend_Dockerfile :: string where
  \<open>backend_Dockerfile =
     ''FROM python:3.11-slim\<newline>'' @
     ''\<newline>'' @
     ''WORKDIR /app\<newline>'' @
     ''COPY ./backend/requirements.txt .\<newline>'' @
     ''RUN pip install --no-cache-dir -r requirements.txt\<newline>'' @
     ''COPY ./backend .\<newline>'' @
     ''\<newline>'' @
     ''CMD ["uvicorn", "app.main:app", "--host", "0.0.0.0", "--port", "8000"]\<newline>''\<close>

text \<open>setup-script.py, lines 108 to 116: the string literal.\<close>

definition frontend_Dockerfile :: string where
  \<open>frontend_Dockerfile =
     ''FROM node:18-alpine\<newline>'' @
     ''\<newline>'' @
     ''WORKDIR /app\<newline>'' @
     ''COPY ./frontend/package*.json ./\<newline>'' @
     ''RUN npm install\<newline>'' @
     ''COPY ./frontend .\<newline>'' @
     ''\<newline>'' @
     ''CMD ["npm", "run", "dev"]\<newline>''\<close>

text \<open>setup-script.py, lines 119 to 157: the string literal.\<close>

definition docker_compose_yml :: string where
  \<open>docker_compose_yml =
     ''version: \'3.8\'\<newline>'' @
     ''services:\<newline>'' @
     ''  backend:\<newline>'' @
     ''    build:\<newline>'' @
     ''      context: .\<newline>'' @
     ''      dockerfile: docker/backend.Dockerfile\<newline>'' @
     ''    ports:\<newline>'' @
     ''      - "8000:8000"\<newline>'' @
     ''    environment:\<newline>'' @
     ''      - DATABASE_URL=postgresql://postgres:postgres@db:5432/fantasy_football\<newline>'' @
     ''    depends_on:\<newline>'' @
     ''      - db\<newline>'' @
     ''\<newline>'' @
     ''  frontend:\<newline>'' @
     ''    build:\<newline>'' @
     ''      context: .\<newline>'' @
     ''      dockerfile: docker/frontend.Dockerfile\<newline>'' @
     ''    ports:\<newline>'' @
     ''      - "5173:5173"\<newline>'' @
     ''    volumes:\<newline>'' @
     ''      - ./frontend:/app\<newline>'' @
     ''      - /app/node_modules\<newline>'' @
     ''    environment:\<newline>'' @
     ''      - VITE_API_URL=http://localhost:8000\<newline>'' @
     ''\<newline>'' @
     ''  db:\<newline>'' @
     ''    image: postgres:15\<newline>'' @
     ''    environment:\<newline>'' @
     ''      - POSTGRES_USER=postgres\<newline>'' @
     ''      - POSTGRES_PASSWORD=postgres\<newline>'' @
     ''      - POSTGRES_DB=fantasy_football\<newline>'' @
     ''    ports:\<newline>'' @
     ''      - "5432:5432"\<newline>'' @
     ''    volumes:\<newline>'' @
     ''      - postgres_data:/var/lib/postgresql/data\<newline>'' @
     ''\<newline>'' @
     ''volumes:\<newline>'' @
     ''  postgres_data:\<newline>''\<close>

text \<open>setup-script.py, lines 160 to 198: the string literal.\<close>

definition README_md :: string where
  \<open>README_md =
     ''# Fantasy Football League Web App\<newline>'' @
     ''\<newline>'' @
     ''## Setup\<newline>'' @
     ''\<newline>'' @
     ''1. Clone the repository\<newline>'' @
     ''2. Install backend dependencies:\<newline>'' @
     ''   ```bash\<newline>'' @
     ''   cd backend\<newline>'' @
     ''   python -m venv venv\<newline>'' @
     ''   source venv/bin/activate  # On Windows: .'' @ [CHR 0x5C] @ ''venv'' @ [CHR 0x5C] @ ''Scripts'' @ [CHR 0x5C] @ ''activate\<newline>'' @
     ''   pip install -r requirements.txt\<newline>'' @
     ''   ```\<newline>'' @
     ''\<newline>'' @
     ''3. Install frontend dependencies:\<newline>'' @
     ''   ```bash\<newline>'' @
     ''   cd frontend\<newline>'' @
     ''   npm install\<newline>'' @
     ''   ```\<newline>'' @
     ''\<newline>'' @
     ''## Development\<newline>'' @
     ''\<newline>'' @
     ''### Backend\<newline>'' @
     ''```bash\<newline>'' @
     ''cd backend\<newline>'' @
     ''uvicorn app.main:app --reload\<newline>'' @
     ''```\<newline>'' @
     ''\<newline>'' @
     ''### Frontend\<newline>'' @
     ''```bash\<newline>'' @
     ''cd frontend\<newline>'' @
     ''npm run dev\<newline>'' @
     ''```\<newline>'' @
     ''\<newline>'' @
     ''## Docker\<newline>'' @
     ''To run the entire stack:\<newline>'' @
     ''```bash\<newline>'' @
     ''docker-compose up --build\<newline>'' @
     ''```\<newline>''\<close>

text \<open>The checked-in file fantasy-football-app/backend/app/main.py, all 17 lines of it.\<close>

definition main_py :: string where
  \<open>main_py =
     ''from fastapi import FastAPI\<newline>'' @
     ''from fastapi.middleware.cors import CORSMiddleware\<newline>'' @
     ''\<newline>'' @
     ''app = FastAPI(title="Fantasy Football League API")\<newline>'' @
     ''\<newline>'' @
     ''app.add_middleware(\<newline>'' @
     ''    CORSMiddleware,\<newline>'' @
     ''    allow_origins=["http://localhost:5173"],\<newline>'' @
     ''    allow_credentials=True,\<newline>'' @
     ''    allow_methods=["*"],\<newline>'' @
     ''    allow_headers=["*"],\<newline>'' @
     '')\<newline>'' @
     ''\<newline>'' @
     ''@app.get("/api/v1/health-check")\<newline>'' @
     ''async def health_check():\<newline>'' @
     ''    return {"status": "healthy"}\<newline>'' @
     ''\<newline>''\<close>

subsection \<open>setup_project\<close>

text \<open>setup-script.py, lines 14 and 18: \<open>root\<close> and \<open>backend\<close>.\<close>

definition root :: py_path where
  "root = Path (str ''fantasy-football-app'')"

definition backend :: py_path where
  "backend = truediv root (str ''backend'')"

text \<open>setup-script.py, lines 42 to 50 and 76 to 87: the two lists of directories.\<close>

definition dirs :: "py_str list" where
  "dirs =
     map str
     [''alembic/versions'',
      ''app/models'',
      ''app/schemas'',
      ''app/api/v1/endpoints'',
      ''app/core'',
      ''app/services'',
      ''tests/api'']"

definition frontend_dirs :: "py_str list" where
  "frontend_dirs =
     map str
     [''components/common'',
      ''components/stats'',
      ''components/posts'',
      ''pages'',
      ''hooks'',
      ''api'',
      ''types'',
      ''utils'',
      ''context'',
      ''styles'']"

text \<open>setup-script.py, lines 14 to 67: the backend.\<close>

definition setup_backend :: "(os_state \<Rightarrow> outcome) list" where
  "setup_backend =
     [mkdir False True root,
      mkdir False True backend,
      create_file (truediv (truediv backend (str ''app'')) (str ''__init__.py'')) (str ''''),
      create_file (truediv (truediv backend (str ''app'')) (str ''main.py''))
        (str main_py_template)] @
     concat (map (\<lambda>dir_path.
        [mkdir True True (truediv backend dir_path),
         create_file (truediv (truediv backend dir_path) (str ''__init__.py'')) (str '''')]) dirs) @
     [create_file (truediv backend (str ''requirements.txt'')) (str requirements)]"

text \<open>setup-script.py, lines 70 to 90: the frontend.\<close>

definition setup_frontend ::
  "(py_str list \<Rightarrow> os_state \<Rightarrow> py_error \<times> os_state + int \<times> os_state) \<Rightarrow>
   (os_state \<Rightarrow> outcome) list" where
  "setup_frontend exec =
     [print (str ''Setting up frontend with Vite...''),
      chdir root,
      subprocess_run exec
        (map str
          [''npm'', ''create'', ''vite@latest'', ''frontend'', ''--'', ''--template'', ''react-ts''])] @
     map (\<lambda>dir_path.
        mkdir True True (truediv (truediv (truediv root (str ''frontend'')) (str ''src'')) dir_path))
       frontend_dirs"

text \<open>setup-script.py, lines 93 to 198: the docker files and the README.\<close>

definition setup_docker :: "(os_state \<Rightarrow> outcome) list" where
  "setup_docker =
     [mkdir False True (truediv root (str ''docker'')),
      create_file (truediv (truediv root (str ''docker'')) (str ''backend.Dockerfile''))
        (str backend_Dockerfile),
      create_file (truediv (truediv root (str ''docker'')) (str ''frontend.Dockerfile''))
        (str frontend_Dockerfile),
      create_file (truediv root (str ''docker-compose.yml'')) (str docker_compose_yml),
      create_file (truediv root (str ''README.md'')) (str README_md)]"

text \<open>setup-script.py, lines 200 to 207: the closing messages.\<close>

definition next_steps :: "(os_state \<Rightarrow> outcome) list" where
  "next_steps =
     map (\<lambda>line. print (str line))
     [''Project structure created successfully!'',
      ''\<newline>Next steps:'',
      ''1. cd fantasy-football-app'',
      ''2. cd frontend && npm install'',
      ''3. cd ../backend'',
      ''4. python -m venv venv'',
      ''5. source venv/bin/activate  # On Windows: .'' @ [CHR 0x5C] @ ''venv'' @
        [CHR 0x5C] @ ''Scripts'' @ [CHR 0x5C] @ ''activate'',
      ''6. pip install -r requirements.txt'']"

text \<open>setup-script.py, lines 12 to 207.\<close>

definition setup_project ::
  "(py_str list \<Rightarrow> os_state \<Rightarrow> py_error \<times> os_state + int \<times> os_state) \<Rightarrow>
   os_state \<Rightarrow> outcome" where
  "setup_project exec =
     steps (setup_backend @ setup_frontend exec @ setup_docker @ next_steps)"

subsection \<open>States\<close>


text \<open>
  The state before the script runs in an empty directory, with the limits of a Linux
  system and of the interpreter as it starts.
\<close>

definition empty_dir :: os_state where
  "empty_dir =
     \<lparr>tree = Map.empty, cwd = [], stdout = [],
      name_max = 255, path_max = 4096, max_depth = 990\<rparr>"


text \<open>A small file system: the directory \<^verbatim>\<open>docs\<close> with the file \<^verbatim>\<open>docs/a.txt\<close>.\<close>

definition docs_state :: os_state where
  "docs_state =
     \<lparr>tree = [[''docs''] \<mapsto> Dir, [''docs'', ''a.txt''] \<mapsto> File ''old''],
      cwd = [], stdout = [],
      name_max = 255, path_max = 4096, max_depth = 990\<rparr>"


text \<open>The exception an outcome carries, if any, and the state it leaves.\<close>

definition raised :: "outcome \<Rightarrow> py_error option" where
  "raised r = (case r of Inl (e, s) \<Rightarrow> Some e | Inr s \<Rightarrow> None)"

definition state_of :: "outcome \<Rightarrow> os_state" where
  "state_of r = (case r of Inl (e, s) \<Rightarrow> s | Inr s \<Rightarrow> s)"

section \<open>Properties of the service\<close>

lemma health_check_result: "fst (health_check w) = Inr [(''status'', ''healthy'')]"
  by (simp add: health_check_def)

lemma health_check_state: "snd (health_check w) = w"
  by (simp add: health_check_def)

subsection \<open>Requests that are not preflight reach the router\<close>

lemma serve_app:
  "serve rs req app = cors_middleware CORSMiddleware (dispatch rs) req app"
  by (simp add: serve_def app_def add_middleware_def FastAPI_def)

lemma dispatch_health_check_get:
  assumes "req_method req = ''GET''" and "req_path req = ''/api/v1/health-check''"
  shows "dispatch app_routes req w = (json_response [(''status'', ''healthy'')], w)"
  using assms by (simp add: dispatch_def app_routes_def app_get_def health_check_def)

lemma get_not_preflight: "req_method req = ''GET'' \<Longrightarrow> \<not> is_preflight req"
  by (simp add: is_preflight_def)

lemma cors_middleware_status:
  "\<not> is_preflight req \<Longrightarrow>
   status (fst (cors_middleware c inner req w)) = status (fst (inner req w))"
  by (simp add: cors_middleware_def split: option.splits prod.splits)

lemma cors_middleware_body:
  "\<not> is_preflight req \<Longrightarrow>
   resp_body (fst (cors_middleware c inner req w)) = resp_body (fst (inner req w))"
  by (simp add: cors_middleware_def split: option.splits prod.splits)

lemma cors_middleware_producer:
  "\<not> is_preflight req \<Longrightarrow>
   produced_by (fst (cors_middleware c inner req w)) = produced_by (fst (inner req w))"
  by (simp add: cors_middleware_def split: option.splits prod.splits)

subsection \<open>The health check\<close>

text \<open>
  C1. Every request \<^verbatim>\<open>GET /api/v1/health-check\<close>, whatever its headers and its body, is
  answered by \<open>health_check\<close>: the handler returns the mapping
  \<^verbatim>\<open>{"status": "healthy"}\<close>, and the response has status 200 and exactly that mapping
  as its body.
\<close>

theorem health_check_get_200:
  assumes "req_method req = ''GET''" and "req_path req = ''/api/v1/health-check''"
  shows "fst (health_check w) = Inr [(''status'', ''healthy'')] \<and>
         status (fst (serve app_routes req app)) = 200 \<and>
         resp_body (fst (serve app_routes req app)) = Some [(''status'', ''healthy'')]"
proof -
  have np: "\<not> is_preflight req"
    using assms(1) by (rule get_not_preflight)
  have d: "fst (dispatch app_routes req app) = json_response [(''status'', ''healthy'')]"
    by (simp add: dispatch_health_check_get [OF assms])
  have "status (fst (serve app_routes req app)) = 200"
    by (simp add: serve_app cors_middleware_status [OF np] d json_response_def)
  moreover have "resp_body (fst (serve app_routes req app)) = Some [(''status'', ''healthy'')]"
    by (simp add: serve_app cors_middleware_body [OF np] d json_response_def)
  ultimately show ?thesis
    by (simp add: health_check_result)
qed

theorem health_check_get_200_witness:
  "status (fst (serve app_routes
      \<lparr>req_method = ''GET'', req_path = ''/api/v1/health-check'',
       req_headers = [(''Origin'', ''http://elsewhere.example''), (''X-Probe'', ''1'')],
       req_body = ''ignored''\<rparr> app)) = 200 \<and>
   resp_body (fst (serve app_routes
      \<lparr>req_method = ''GET'', req_path = ''/api/v1/health-check'',
       req_headers = [(''Origin'', ''http://elsewhere.example''), (''X-Probe'', ''1'')],
       req_body = ''ignored''\<rparr> app)) = Some [(''status'', ''healthy'')]"
proof -
  let ?r = "\<lparr>req_method = ''GET'', req_path = ''/api/v1/health-check'',
       req_headers = [(''Origin'', ''http://elsewhere.example''), (''X-Probe'', ''1'')],
       req_body = ''ignored''\<rparr>"
  have m: "req_method ?r = ''GET''" by simp
  have p: "req_path ?r = ''/api/v1/health-check''" by simp
  from health_check_get_200 [OF m p, where w = "()"] show ?thesis by simp
qed

text \<open>
  C2. \<open>health_check\<close> is deterministic and free of side effects: the mapping it returns
  is the same in every state of the process, so any two invocations give the same bytes
  under any serialisation \<open>render\<close> of the body; and it returns the state it was given,
  so it changes nothing and its result depends on nothing it could have read.
\<close>

theorem health_check_deterministic_pure:
  "render (fst (health_check w1)) = render (fst (health_check w2)) \<and>
   snd (health_check w) = w \<and>
   fst (health_check (snd (health_check w))) = fst (health_check w)"
  by (simp add: health_check_def)

text \<open>
  C5. \<open>health_check\<close> has no failure path: in every state it returns a value, never an
  exception, so the set of errors it can raise is empty; and it leaves the state as it
  found it.
\<close>

theorem health_check_no_failure:
  "(\<exists>d. fst (health_check w) = Inr d) \<and>
   {e. \<exists>w. fst (health_check w) = Inl e} = {} \<and>
   snd (health_check w) = w"
  by (simp add: health_check_def)

subsection \<open>The cross-origin policy\<close>

lemma cors_headers_app:
  "cors_headers CORSMiddleware ''http://localhost:5173'' =
     [(''Access-Control-Allow-Origin'', ''http://localhost:5173''),
      (''Access-Control-Allow-Credentials'', ''true''),
      (''Access-Control-Allow-Methods'', ''*''),
      (''Access-Control-Allow-Headers'', ''*'')]"
  by (simp add: cors_headers_def CORSMiddleware_def)

lemma cors_headers_other:
  "origin \<noteq> ''http://localhost:5173'' \<Longrightarrow> cors_headers CORSMiddleware origin = []"
  by (simp add: cors_headers_def CORSMiddleware_def)

lemma dispatch_headers:
  "set (resp_headers (fst (dispatch rs req w))) \<subseteq> {(''Content-Type'', ''application/json'')}"
  by (simp add: dispatch_def json_response_def host_error_def
      split: option.splits prod.splits sum.splits)

lemma cors_middleware_headers:
  assumes "map_of (req_headers req) ''Origin'' = Some origin"
  shows "resp_headers (fst (cors_middleware c inner req w)) =
     (if is_preflight req then [] else resp_headers (fst (inner req w))) @ cors_headers c origin"
  using assms by (simp add: cors_middleware_def host_error_def split: prod.splits)

lemma filter_cors_dispatch:
  "filter is_cors_header (resp_headers (fst (dispatch rs req w))) = []"
  by (simp add: dispatch_def json_response_def host_error_def is_cors_header_def
      split: option.splits prod.splits sum.splits)

lemma filter_cors_headers: "filter is_cors_header (cors_headers c origin) = cors_headers c origin"
  by (simp add: cors_headers_def is_cors_header_def)

text \<open>
  C3. Every request whose \<^verbatim>\<open>Origin\<close> header is \<^verbatim>\<open>http://localhost:5173\<close>, preflight or
  not, to any path and with any method, gets a response that carries
  \<^verbatim>\<open>Access-Control-Allow-Origin: http://localhost:5173\<close> and
  \<^verbatim>\<open>Access-Control-Allow-Credentials: true\<close>.
\<close>

theorem configured_origin_allowed:
  assumes "map_of (req_headers req) ''Origin'' = Some ''http://localhost:5173''"
  shows "(''Access-Control-Allow-Origin'', ''http://localhost:5173'')
           \<in> set (resp_headers (fst (serve app_routes req app))) \<and>
         (''Access-Control-Allow-Credentials'', ''true'')
           \<in> set (resp_headers (fst (serve app_routes req app)))"
  by (simp add: serve_app cors_middleware_headers [OF assms] cors_headers_app)

theorem configured_origin_allowed_witness:
  "(''Access-Control-Allow-Origin'', ''http://localhost:5173'')
     \<in> set (resp_headers (fst (serve app_routes
          \<lparr>req_method = ''OPTIONS'', req_path = ''/api/v1/health-check'',
           req_headers = [(''Origin'', ''http://localhost:5173''),
                          (''Access-Control-Request-Method'', ''GET'')],
           req_body = []\<rparr> app))) \<and>
   (''Access-Control-Allow-Credentials'', ''true'')
     \<in> set (resp_headers (fst (serve app_routes
          \<lparr>req_method = ''OPTIONS'', req_path = ''/api/v1/health-check'',
           req_headers = [(''Origin'', ''http://localhost:5173''),
                          (''Access-Control-Request-Method'', ''GET'')],
           req_body = []\<rparr> app)))"
proof -
  let ?r = "\<lparr>req_method = ''OPTIONS'', req_path = ''/api/v1/health-check'',
           req_headers = [(''Origin'', ''http://localhost:5173''),
                          (''Access-Control-Request-Method'', ''GET'')],
           req_body = []\<rparr>"
  have o: "map_of (req_headers ?r) ''Origin'' = Some ''http://localhost:5173''" by simp
  from configured_origin_allowed [OF o] show ?thesis .
qed

text \<open>
  C4. A request whose \<^verbatim>\<open>Origin\<close> header is anything but \<^verbatim>\<open>http://localhost:5173\<close> gets
  no \<^verbatim>\<open>Access-Control-Allow-Origin\<close> header naming that origin; the allow-list of the
  middleware main.py installs is the one origin \<^verbatim>\<open>http://localhost:5173\<close>.
\<close>

theorem other_origin_not_allowed:
  assumes "map_of (req_headers req) ''Origin'' = Some origin"
    and "origin \<noteq> ''http://localhost:5173''"
  shows "(''Access-Control-Allow-Origin'', origin)
           \<notin> set (resp_headers (fst (serve app_routes req app))) \<and>
         allow_origins CORSMiddleware = [''http://localhost:5173''] \<and>
         user_middleware app = [CORSMiddleware]"
proof -
  have "resp_headers (fst (serve app_routes req app)) =
     (if is_preflight req then [] else resp_headers (fst (dispatch app_routes req app)))"
    by (simp add: serve_app cors_middleware_headers [OF assms(1)] cors_headers_other [OF assms(2)])
  moreover have "(''Access-Control-Allow-Origin'', origin)
      \<notin> set (resp_headers (fst (dispatch app_routes req app)))"
    using dispatch_headers [of app_routes req app] by auto
  ultimately show ?thesis
    by (simp add: CORSMiddleware_def app_def add_middleware_def FastAPI_def)
qed

theorem other_origin_not_allowed_witness:
  "(''Access-Control-Allow-Origin'', ''http://localhost:3000'')
     \<notin> set (resp_headers (fst (serve app_routes
          \<lparr>req_method = ''GET'', req_path = ''/api/v1/health-check'',
           req_headers = [(''Origin'', ''http://localhost:3000'')],
           req_body = []\<rparr> app))) \<and>
   allow_origins CORSMiddleware = [''http://localhost:5173'']"
proof -
  let ?r = "\<lparr>req_method = ''GET'', req_path = ''/api/v1/health-check'',
           req_headers = [(''Origin'', ''http://localhost:3000'')],
           req_body = []\<rparr>"
  have o: "map_of (req_headers ?r) ''Origin'' = Some ''http://localhost:3000''" by simp
  have n: "''http://localhost:3000'' \<noteq> ''http://localhost:5173''" by simp
  from other_origin_not_allowed [OF o n] show ?thesis by simp
qed

lemma dispatch_405:
  assumes "req_path req = ''/api/v1/health-check''" and "req_method req \<noteq> ''GET''"
  shows "dispatch app_routes req w = (host_error 405, w)"
  using assms by (simp add: dispatch_def app_routes_def app_get_def)

text \<open>
  C6. A request to \<^verbatim>\<open>/api/v1/health-check\<close> whose method is not \<^verbatim>\<open>GET\<close> and which is
  not a preflight is answered with 405, method not allowed, by the hosting layer: the
  response is not the application's and carries no body of it.
\<close>

theorem other_method_not_allowed:
  assumes "req_path req = ''/api/v1/health-check''"
    and "req_method req \<noteq> ''GET''"
    and "\<not> is_preflight req"
  shows "status (fst (serve app_routes req app)) = 405 \<and>
         produced_by (fst (serve app_routes req app)) = Hosting_Layer \<and>
         resp_body (fst (serve app_routes req app)) = None"
  by (simp add: serve_app cors_middleware_status [OF assms(3)]
      cors_middleware_producer [OF assms(3)] cors_middleware_body [OF assms(3)]
      dispatch_405 [OF assms(1,2)] host_error_def)

theorem other_method_not_allowed_witness:
  "status (fst (serve app_routes
      \<lparr>req_method = ''POST'', req_path = ''/api/v1/health-check'',
       req_headers = [(''Origin'', ''http://localhost:5173'')],
       req_body = ''{}''\<rparr> app)) = 405 \<and>
   produced_by (fst (serve app_routes
      \<lparr>req_method = ''POST'', req_path = ''/api/v1/health-check'',
       req_headers = [(''Origin'', ''http://localhost:5173'')],
       req_body = ''{}''\<rparr> app)) = Hosting_Layer"
proof -
  let ?r = "\<lparr>req_method = ''POST'', req_path = ''/api/v1/health-check'',
       req_headers = [(''Origin'', ''http://localhost:5173'')],
       req_body = ''{}''\<rparr>"
  have p: "req_path ?r = ''/api/v1/health-check''" by simp
  have m: "req_method ?r \<noteq> ''GET''" by simp
  have n: "\<not> is_preflight ?r" by (simp add: is_preflight_def)
  from other_method_not_allowed [OF p m n] show ?thesis by simp
qed

text \<open>
  C7. The policy does not depend on the route: for any table of routes and any path,
  the cross-origin headers of the response to a request with an \<^verbatim>\<open>Origin\<close> header are
  the headers of the policy for that origin, and for the configured origin these are the
  allowed origin, the credentials flag and the wildcards for methods and headers.
\<close>

theorem cors_policy_on_every_route:
  assumes "map_of (req_headers req) ''Origin'' = Some origin"
  shows "filter is_cors_header (resp_headers (fst (serve rs (req\<lparr>req_path := p\<rparr>) app))) =
           cors_headers CORSMiddleware origin \<and>
         cors_headers CORSMiddleware ''http://localhost:5173'' =
           [(''Access-Control-Allow-Origin'', ''http://localhost:5173''),
            (''Access-Control-Allow-Credentials'', ''true''),
            (''Access-Control-Allow-Methods'', ''*''),
            (''Access-Control-Allow-Headers'', ''*'')]"
proof -
  have "map_of (req_headers (req\<lparr>req_path := p\<rparr>)) ''Origin'' = Some origin"
    using assms by simp
  then show ?thesis
    by (simp add: serve_app cors_middleware_headers filter_cors_dispatch filter_cors_headers
        cors_headers_app)
qed

theorem cors_policy_on_every_route_witness:
  "filter is_cors_header (resp_headers (fst (serve app_routes
      \<lparr>req_method = ''GET'', req_path = ''/api/v1/leagues'',
       req_headers = [(''Origin'', ''http://localhost:5173'')],
       req_body = []\<rparr> app))) =
   [(''Access-Control-Allow-Origin'', ''http://localhost:5173''),
    (''Access-Control-Allow-Credentials'', ''true''),
    (''Access-Control-Allow-Methods'', ''*''),
    (''Access-Control-Allow-Headers'', ''*'')]"
proof -
  let ?r = "\<lparr>req_method = ''GET'', req_path = ''/api/v1/health-check'',
       req_headers = [(''Origin'', ''http://localhost:5173'')],
       req_body = []\<rparr>"
  have o: "map_of (req_headers ?r) ''Origin'' = Some ''http://localhost:5173''" by simp
  from cors_policy_on_every_route [OF o, of app_routes "''/api/v1/leagues''"]
  show ?thesis by simp
qed

lemma dispatch_app_state: "snd (dispatch app_routes req w) = w"
  by (simp add: dispatch_def app_routes_def app_get_def health_check_def host_error_def)

lemma cors_middleware_state:
  "snd (inner req w) = w \<Longrightarrow> snd (cors_middleware c inner req w) = w"
  by (auto simp: cors_middleware_def split: option.splits prod.splits)

lemma middleware_stack_state:
  "snd (foldr cors_middleware cs (dispatch app_routes) req w) = w"
  by (induction cs arbitrary: req w) (simp_all add: dispatch_app_state cors_middleware_state)

lemma serve_state: "snd (serve app_routes req a) = a"
  by (simp add: serve_def middleware_stack_state)

lemma run_service_state: "snd (run_service app_routes reqs a) = a"
proof (induction reqs arbitrary: a)
  case Nil
  show ?case by simp
next
  case (Cons req reqs)
  have "snd (serve app_routes req a) = a"
    by (rule serve_state)
  with Cons.IH [of a] show ?case
    by (simp split: prod.splits) (metis snd_conv)
qed

text \<open>
  C8. The policy is fixed at startup: whatever requests the running service serves, in
  whatever order, the application object is afterwards what loading main.py made it,
  and its one middleware has the literal allow-list, credentials flag and allowances
  for methods and headers.
\<close>

theorem cors_policy_immutable:
  "snd (run_service app_routes reqs app) = app \<and>
   user_middleware (snd (run_service app_routes reqs app)) =
     [\<lparr>allow_origins = [''http://localhost:5173''], allow_credentials = True,
       allow_methods = [''*''], allow_headers = [''*'']\<rparr>]"
  by (simp add: run_service_state)
     (simp add: app_def add_middleware_def FastAPI_def CORSMiddleware_def)

section \<open>Properties of the scaffolding script\<close>

subsection \<open>Directories\<close>

declare mkdir_frames.simps [simp del]







subsection \<open>The walk\<close>





subsection \<open>Paths as arguments of system calls\<close>







subsection \<open>Path.mkdir\<close>

















subsection \<open>create_file\<close>




text \<open>
  The other ways \<open>create_file\<close> raises, each at an input the theorem above
  excludes: a content or a name that cannot be encoded (the file is left empty), a NUL
  in a name (the parent is made first), a name that is too long, a regular file among
  the ancestors, and more missing ancestors than \<^verbatim>\<open>mkdir\<close> may nest. A path through
  \<^verbatim>\<open>..\<close> can work: \<^verbatim>\<open>q/../y\<close> makes the directory \<^verbatim>\<open>q\<close> and writes \<^verbatim>\<open>y\<close> beside it.
\<close>

lemma create_file_other_errors:
  "raised (create_file (Path (str ''docs/a.txt'')) [97, 0xD800] docs_state) = Some UnicodeEncodeError"
  "lookup (state_of (create_file (Path (str ''docs/a.txt'')) [97, 0xD800] docs_state))
     [''docs'', ''a.txt''] = Some (File [])"
  "raised (create_file (Path [100, 47, 120, 0, 121]) (str ''text'') docs_state) = Some ValueError"
  "lookup (state_of (create_file (Path [100, 47, 120, 0, 121]) (str ''text'') docs_state)) [''d'']
     = Some Dir"
  "raised (create_file (Path [0xD800]) (str ''text'') docs_state) = Some UnicodeEncodeError"
  "raised (create_file (Path (replicate 256 110)) (str ''text'') docs_state) = Some OSError"
  "raised (create_file (Path (str ''docs/a.txt/b'')) (str ''text'') docs_state) = Some FileExistsError"
  "raised (create_file (Path (str ''docs/a.txt/b/c'')) (str ''text'') docs_state)
     = Some NotADirectoryError"
  "raised (create_file (Path (str ''a/b/c/d'')) (str ''text'') (docs_state\<lparr>max_depth := 2\<rparr>))
     = Some RecursionError"
  "raised (create_file (Path (str ''q/../y'')) (str ''text'') docs_state) = None"
  "map (lookup (state_of (create_file (Path (str ''q/../y'')) (str ''text'') docs_state)))
     [[''q''], [''y'']] = [Some Dir, Some (File ''text'')]"
  by code_simp+

subsection \<open>The text of main.py\<close>

lemma after_backend:
  "(case steps setup_backend empty_dir of
      Inl e \<Rightarrow> None
    | Inr s \<Rightarrow> lookup s [''fantasy-football-app'', ''backend'', ''app'', ''main.py'']) =
   Some (File main_py_template)"
  by code_simp

lemma steps_append:
  "steps (fs @ gs) s = (case steps fs s of Inl e \<Rightarrow> Inl e | Inr s' \<Rightarrow> steps gs s')"
  by (induction fs arbitrary: s) (auto split: sum.splits)

text \<open>
  C9, as the code has it. Run in an empty directory, the statements of \<open>setup_project\<close>
  up to line 67 return and leave \<^verbatim>\<open>fantasy-football-app/backend/app/main.py\<close> holding
  the template of lines 23 to 39, and the rest of \<open>setup_project\<close> goes on from that
  state; the checked-in main.py is that template followed by one more newline character,
  an empty last line, and nothing else differs.
\<close>

theorem main_py_is_template_and_newline:
  "(\<exists>s. steps setup_backend empty_dir = Inr s \<and>
        lookup s [''fantasy-football-app'', ''backend'', ''app'', ''main.py''] =
          Some (File main_py_template) \<and>
        (\<forall>exec. setup_project exec empty_dir =
           steps (setup_frontend exec @ setup_docker @ next_steps) s)) \<and>
   main_py = main_py_template @ ''\<newline>''"
proof -
  obtain s where s: "steps setup_backend empty_dir = Inr s"
    using after_backend by (cases "steps setup_backend empty_dir") auto
  with after_backend
  have "lookup s [''fantasy-football-app'', ''backend'', ''app'', ''main.py''] =
          Some (File main_py_template)"
    by simp
  moreover have "setup_project exec empty_dir =
      steps (setup_frontend exec @ setup_docker @ next_steps) s" for exec
    using s by (simp add: setup_project_def steps_append)
  moreover have "main_py = main_py_template @ ''\<newline>''"
    by (simp add: main_py_def main_py_template_def)
  ultimately show ?thesis
    using s by blast
qed

text \<open>
  C9 as it is stated fails: the two texts are not character for character the same,
  the template has 390 characters and the checked-in file 391.
\<close>

theorem main_py_template_differs:
  "main_py_template \<noteq> main_py \<and> length main_py_template = 390 \<and> length main_py = 391"
  by (simp add: main_py_def main_py_template_def)

end
